theory Spec2Isabelle
  imports Complex_Main
begin

section \<open>Session and profile management of \<open>src/context/AuthContext.tsx\<close>\<close>

text \<open>
  The provider keeps two pieces of React state, \<open>user\<close> and \<open>userProfile\<close>, and talks to two
  external collaborators: the Auth Service (\<open>supabase.auth\<close>) and the Profile Store (the table
  \<open>user_profiles\<close>). Every asynchronous function of the source becomes a function from the
  state before the call to its completion and the state after it: \<open>Inr ()\<close> is a promise
  that resolved, \<open>Inl e\<close> one that rejected with \<open>e\<close>.

  The collaborators are not part of the program. They are a parameter: a record of response
  functions over a backend state of arbitrary type \<open>'b\<close>, so that every theorem holds for
  every behaviour of the services, including failures at any call. Every request that the
  program issues is recorded in \<open>requests\<close>.

  Conventions for JavaScript values:
  \<^item> a \<open>number\<close> is a real number (no rounding, no NaN, no infinities);
  \<^item> a field that is \<open>null\<close>, \<open>undefined\<close> or not present is \<open>None\<close>: the source
    never tells them apart (\<open>??\<close> and the test at line 103 treat them alike);
  \<^item> \<open>a || b\<close> takes \<open>b\<close> when \<open>a\<close> is falsy: \<open>None\<close>, the number \<open>0\<close> or the empty
    string; an array is always truthy;
  \<^item> the values of \<open>user\<close> and \<open>userProfile\<close> that a function reads are those of the state
    in which it is called (no re-render between the call and its reads), and calls do not
    overlap.

  The functions modelled are \<open>fetchUserProfile\<close>, \<open>signUp\<close>, \<open>signOut\<close> and \<open>updateUserStats\<close>.
\<close>

subsection \<open>Data\<close>

text \<open>A profile row, an insert payload and a partial update share one shape (\<open>Partial<User>\<close>).\<close>

record profile =
  profile_id :: "string option"
  email :: "string option"
  name :: "string option"
  class_level :: "real option"
  total_coins :: "real option"
  total_correct :: "real option"
  total_wrong :: "real option"
  avatar_id :: "real option"
  unlocked_chapters :: "string list option"
  diagnostic_completed :: "bool option"
  phone :: "string option"
  full_name :: "string option"
  avatar_url :: "string option"
  money :: "real option"
  total_correct_answers :: "real option"

definition empty_profile :: profile where
  "empty_profile = \<lparr>profile_id = None, email = None, name = None, class_level = None,
     total_coins = None, total_correct = None, total_wrong = None, avatar_id = None,
     unlocked_chapters = None, diagnostic_completed = None, phone = None, full_name = None,
     avatar_url = None, money = None, total_correct_answers = None\<rparr>"

text \<open>The identity that the Auth Service manages (\<open>SupabaseUser\<close>), as far as it is read.\<close>

record auth_user =
  user_id :: string
  user_email :: "string option"
  user_metadata_name :: "string option"

record session =
  session_user :: auth_user

text \<open>An entry of the static chapter catalog \<open>chaptersData\<close>.\<close>

record catalog_entry =
  chapter_id :: string
  chapter_class_level :: real
  chapter_order :: real

datatype error = ServiceError string string | TypeError string

fun err_code :: "error \<Rightarrow> string option" where
  "err_code (ServiceError c m) = Some c"
| "err_code (TypeError m) = None"

text \<open>The pairs \<open>{ data, error }\<close> that the services resolve with.\<close>

record select_result =
  sel_data :: "profile option"
  sel_error :: "error option"

record signup_result =
  su_user :: "auth_user option"
  su_error :: "error option"

datatype request =
    DbSelect string
  | DbInsert profile
  | DbUpdate string profile
  | AuthGetUser
  | AuthGetSession
  | AuthSignUp string string "string option" "real option"
  | AuthSignOut

datatype log_entry =
    LogError string error
  | LogInfo string string real real real

record timer =
  timer_delay :: nat
  timer_userId :: string

text \<open>
  The services. Each function takes the backend state and the arguments of the call and gives
  what the awaited promise does (\<open>Inl\<close>: it rejects, so \<open>await\<close> throws) and the next
  backend state.
\<close>

record 'b services =
  svc_select :: "'b \<Rightarrow> string \<Rightarrow> (error + select_result) \<times> 'b"
  svc_insert :: "'b \<Rightarrow> profile \<Rightarrow> (error + error option) \<times> 'b"
  svc_update :: "'b \<Rightarrow> string \<Rightarrow> profile \<Rightarrow> (error + error option) \<times> 'b"
  svc_getUser :: "'b \<Rightarrow> (error + auth_user option) \<times> 'b"
  svc_getSession :: "'b \<Rightarrow> (error + session option) \<times> 'b"
  svc_signUp :: "'b \<Rightarrow> string \<Rightarrow> string \<Rightarrow> string option \<Rightarrow> real option
                  \<Rightarrow> (error + signup_result) \<times> 'b"
  svc_signOut :: "'b \<Rightarrow> (error + error option) \<times> 'b"

record 'b auth_state =
  user :: "auth_user option"
  userProfile :: "profile option"
  timers :: "timer list"
  console :: "log_entry list"
  requests :: "request list"
  backend :: 'b

subsection \<open>State setters, logging, timers\<close>

definition setUser :: "auth_user option \<Rightarrow> 'b auth_state \<Rightarrow> 'b auth_state" where
  "setUser u w = w\<lparr>user := u\<rparr>"

definition setUserProfile :: "profile option \<Rightarrow> 'b auth_state \<Rightarrow> 'b auth_state" where
  "setUserProfile p w = w\<lparr>userProfile := p\<rparr>"

definition console_error :: "string \<Rightarrow> error \<Rightarrow> 'b auth_state \<Rightarrow> 'b auth_state" where
  "console_error tag e w = w\<lparr>console := console w @ [LogError tag e]\<rparr>"

definition console_log :: "log_entry \<Rightarrow> 'b auth_state \<Rightarrow> 'b auth_state" where
  "console_log l w = w\<lparr>console := console w @ [l]\<rparr>"

definition setTimeout :: "string \<Rightarrow> nat \<Rightarrow> 'b auth_state \<Rightarrow> 'b auth_state" where
  "setTimeout userId ms w = w\<lparr>timers := timers w @ [\<lparr>timer_delay = ms, timer_userId = userId\<rparr>]\<rparr>"

subsection \<open>Calls to the services\<close>

definition call :: "request \<Rightarrow> 'r \<times> 'b \<Rightarrow> 'b auth_state \<Rightarrow> 'r \<times> 'b auth_state" where
  "call q rb w = (fst rb, w\<lparr>requests := requests w @ [q], backend := snd rb\<rparr>)"

definition db_select :: "'b services \<Rightarrow> string \<Rightarrow> 'b auth_state
    \<Rightarrow> (error + select_result) \<times> 'b auth_state" where
  "db_select S userId w = call (DbSelect userId) (svc_select S (backend w) userId) w"

definition db_insert :: "'b services \<Rightarrow> profile \<Rightarrow> 'b auth_state
    \<Rightarrow> (error + error option) \<times> 'b auth_state" where
  "db_insert S row w = call (DbInsert row) (svc_insert S (backend w) row) w"

definition db_update :: "'b services \<Rightarrow> string \<Rightarrow> profile \<Rightarrow> 'b auth_state
    \<Rightarrow> (error + error option) \<times> 'b auth_state" where
  "db_update S userId payload w =
     call (DbUpdate userId payload) (svc_update S (backend w) userId payload) w"

definition auth_getUser :: "'b services \<Rightarrow> 'b auth_state
    \<Rightarrow> (error + auth_user option) \<times> 'b auth_state" where
  "auth_getUser S w = call AuthGetUser (svc_getUser S (backend w)) w"

definition auth_getSession :: "'b services \<Rightarrow> 'b auth_state
    \<Rightarrow> (error + session option) \<times> 'b auth_state" where
  "auth_getSession S w = call AuthGetSession (svc_getSession S (backend w)) w"

definition auth_signUp :: "'b services \<Rightarrow> string \<Rightarrow> string \<Rightarrow> string option \<Rightarrow> real option
    \<Rightarrow> 'b auth_state \<Rightarrow> (error + signup_result) \<times> 'b auth_state" where
  "auth_signUp S em pw nm cl w =
     call (AuthSignUp em pw nm cl) (svc_signUp S (backend w) em pw nm cl) w"

definition auth_signOut :: "'b services \<Rightarrow> 'b auth_state
    \<Rightarrow> (error + error option) \<times> 'b auth_state" where
  "auth_signOut S w = call AuthSignOut (svc_signOut S (backend w)) w"

subsection \<open>JavaScript operators\<close>

text \<open>\<open>a || b\<close> on strings and on numbers, with a default that is always there.\<close>

definition str_or :: "string option \<Rightarrow> string \<Rightarrow> string" where
  "str_or a b = (case a of None \<Rightarrow> b | Some s \<Rightarrow> if s = '''' then b else s)"

definition num_or :: "real option \<Rightarrow> real \<Rightarrow> real" where
  "num_or a b = (case a of None \<Rightarrow> b | Some x \<Rightarrow> if x = 0 then b else x)"

text \<open>\<open>a || b\<close> where \<open>b\<close> may itself be missing.\<close>

definition str_or_opt :: "string option \<Rightarrow> string option \<Rightarrow> string option" where
  "str_or_opt a b = (case a of None \<Rightarrow> b | Some s \<Rightarrow> if s = '''' then b else Some s)"

definition num_or_opt :: "real option \<Rightarrow> real option \<Rightarrow> real option" where
  "num_or_opt a b = (case a of None \<Rightarrow> b | Some x \<Rightarrow> if x = 0 then b else Some x)"

text \<open>\<open>a ?? b\<close>.\<close>

definition nullish :: "'a option \<Rightarrow> 'a option \<Rightarrow> 'a option" where
  "nullish a b = (case a of None \<Rightarrow> b | Some x \<Rightarrow> Some x)"

text \<open>\<open>userProfile?.f\<close>.\<close>

definition opt_field :: "profile option \<Rightarrow> (profile \<Rightarrow> 'a option) \<Rightarrow> 'a option" where
  "opt_field p f = (case p of None \<Rightarrow> None | Some r \<Rightarrow> f r)"

subsection \<open>\<open>fetchUserProfile\<close> (lines 56 to 115)\<close>

text \<open>Lines 69 to 71: \<open>chaptersData.find(c => c.class_level === 1 && c.order === 1)\<close>.\<close>

definition firstChapter_default :: "catalog_entry list \<Rightarrow> catalog_entry option" where
  "firstChapter_default chaptersData =
     find (\<lambda>c. chapter_class_level c = 1 \<and> chapter_order c = 1) chaptersData"

text \<open>Lines 75 to 86: the row that the create-on-missing branch inserts.\<close>

definition default_profile :: "catalog_entry list \<Rightarrow> auth_user \<Rightarrow> profile" where
  "default_profile chaptersData u = empty_profile
     \<lparr>profile_id := Some (user_id u),
      email := Some (str_or (user_email u) ''''),
      name := Some (str_or (user_metadata_name u) ''''),
      class_level := Some 1,
      total_coins := Some 100,
      total_correct := Some 0,
      total_wrong := Some 0,
      avatar_id := Some 1,
      unlocked_chapters := Some (case firstChapter_default chaptersData of
                                   Some c \<Rightarrow> [chapter_id c]
                                 | None \<Rightarrow> [''class9_ch1'']),
      diagnostic_completed := Some False\<rparr>"

text \<open>Lines 95 to 100: the reconciled view \<open>updatedData\<close>.\<close>

definition updatedData :: "profile \<Rightarrow> profile" where
  "updatedData d = d
     \<lparr>total_coins := nullish (total_coins d) (nullish (money d) (Some 100)),
      unlocked_chapters := nullish (unlocked_chapters d) (Some [''class9_ch1'']),
      name := Some (str_or (str_or_opt (name d) (full_name d)) ''Student'')\<rparr>"

text \<open>Line 106: the fields of the backfill update, \<open>{ total_coins: updatedData.total_coins }\<close>.\<close>

definition backfill_payload :: "profile \<Rightarrow> profile" where
  "backfill_payload d = empty_profile\<lparr>total_coins := total_coins (updatedData d)\<rparr>"

text \<open>The \<open>catch\<close> clauses: log the error and resolve.\<close>

definition catch_log :: "string \<Rightarrow> (error + unit) \<times> 'b auth_state \<Rightarrow> (error + unit) \<times> 'b auth_state" where
  "catch_log tag r = (case r of
       (Inl e, w) \<Rightarrow> (Inr (), console_error tag e w)
     | (Inr u, w) \<Rightarrow> (Inr u, w))"

text \<open>
  The function calls itself after a successful insert, with no bound on the depth: against
  a store that accepts every insert and never finds the row it does not return
  (\<open>fetchUserProfile_may_not_return\<close> below). \<open>None\<close> is a call that never completes.

  A lookup that resolves with neither an error nor a row makes line 97 read a field of
  \<open>null\<close>, which throws a \<open>TypeError\<close> inside the \<open>try\<close>. The answer of the backfill update is not
  looked at (line 104); only its rejection throws.
\<close>

partial_function (option) fetchUserProfile ::
  "'b services \<Rightarrow> catalog_entry list \<Rightarrow> string \<Rightarrow> 'b auth_state
     \<Rightarrow> ((error + unit) \<times> 'b auth_state) option" where
  "fetchUserProfile S chaptersData userId w =
     Option.bind
       (case db_select S userId w of
          (Inl thrown, w1) \<Rightarrow> Some (Inl thrown, w1)
        | (Inr res, w1) \<Rightarrow>
           (case sel_error res of
              Some err \<Rightarrow>
                if err_code err = Some ''PGRST116'' then
                  (case auth_getUser S w1 of
                     (Inl thrown, w2) \<Rightarrow> Some (Inl thrown, w2)
                   | (Inr None, w2) \<Rightarrow> Some (Inr (), w2)
                   | (Inr (Some authUser), w2) \<Rightarrow>
                      (case db_insert S (default_profile chaptersData authUser) w2 of
                         (Inl thrown, w3) \<Rightarrow> Some (Inl thrown, w3)
                       | (Inr (Some insertError), w3) \<Rightarrow> Some (Inl insertError, w3)
                       | (Inr None, w3) \<Rightarrow> fetchUserProfile S chaptersData userId w3))
                else Some (Inl err, w1)
            | None \<Rightarrow>
               (case sel_data res of
                  None \<Rightarrow> Some (Inl (TypeError ''data is null''), w1)
                | Some d \<Rightarrow>
                   if total_coins d = None then
                     (case db_update S userId (backfill_payload d) w1 of
                        (Inl thrown, w2) \<Rightarrow> Some (Inl thrown, w2)
                      | (Inr _, w2) \<Rightarrow> Some (Inr (), setUserProfile (Some d) w2))
                   else Some (Inr (), setUserProfile (Some d) w1))))
       (\<lambda>r. Some (catch_log ''Error fetching user profile:'' r))"

declare fetchUserProfile.simps [code]

subsection \<open>\<open>signUp\<close> (lines 117 to 161)\<close>

text \<open>Lines 133 to 135: \<open>chaptersData.find(c => c.class_level === userData.class_level && c.order === 1)\<close>.
  A missing \<open>userData.class_level\<close> is \<open>undefined\<close>, which \<open>===\<close> no number.\<close>

definition firstChapter_for :: "catalog_entry list \<Rightarrow> real option \<Rightarrow> catalog_entry option" where
  "firstChapter_for chaptersData cl =
     find (\<lambda>c. Some (chapter_class_level c) = cl \<and> chapter_order c = 1) chaptersData"

text \<open>Lines 139 to 154: the row that \<open>signUp\<close> inserts.\<close>

definition signUp_profile :: "catalog_entry list \<Rightarrow> string \<Rightarrow> profile \<Rightarrow> auth_user \<Rightarrow> profile" where
  "signUp_profile chaptersData em userData u = empty_profile
     \<lparr>profile_id := Some (user_id u),
      email := Some em,
      name := Some (str_or (name userData) ''''),
      class_level := Some (num_or (class_level userData) 1),
      total_coins := Some 0,
      total_correct := Some 0,
      total_wrong := Some 0,
      avatar_id := Some 1,
      unlocked_chapters := Some (case firstChapter_for chaptersData (class_level userData) of
                                   Some c \<Rightarrow> [chapter_id c]
                                 | None \<Rightarrow> []),
      diagnostic_completed := Some False,
      phone := str_or_opt (phone userData) None,
      full_name := Some (str_or (name userData) ''''),
      avatar_url := None,
      money := Some 100\<rparr>"

definition signUp ::
  "'b services \<Rightarrow> catalog_entry list \<Rightarrow> string \<Rightarrow> string \<Rightarrow> profile \<Rightarrow> 'b auth_state
     \<Rightarrow> ((error + unit) \<times> 'b auth_state) option" where
  "signUp S chaptersData em password userData w =
     (case auth_signUp S em password (name userData) (class_level userData) w of
        (Inl thrown, w1) \<Rightarrow> Some (Inl thrown, w1)
      | (Inr res, w1) \<Rightarrow>
         (case su_error res of
            Some err \<Rightarrow> Some (Inl err, w1)
          | None \<Rightarrow>
             (case su_user res of
                None \<Rightarrow> Some (Inr (), w1)
              | Some u \<Rightarrow>
                 (case db_insert S (signUp_profile chaptersData em userData u) w1 of
                    (Inl thrown, w2) \<Rightarrow> Some (Inl thrown, w2)
                  | (Inr (Some userError), w2) \<Rightarrow> Some (Inl userError, w2)
                  | (Inr None, w2) \<Rightarrow> fetchUserProfile S chaptersData (user_id u) w2))))"

subsection \<open>\<open>signOut\<close> (lines 172 to 186)\<close>

definition signOut :: "'b services \<Rightarrow> 'b auth_state \<Rightarrow> (error + unit) \<times> 'b auth_state" where
  "signOut S w =
     (case (case auth_getSession S w of
              (Inl thrown, w1) \<Rightarrow> (Inl thrown, w1)
            | (Inr None, w1) \<Rightarrow> (Inr (), setUserProfile None (setUser None w1))
            | (Inr (Some sess), w1) \<Rightarrow>
               (case auth_signOut S w1 of
                  (Inl thrown, w2) \<Rightarrow> (Inl thrown, w2)
                | (Inr (Some err), w2) \<Rightarrow> (Inl err, w2)
                | (Inr None, w2) \<Rightarrow> (Inr (), setUserProfile None (setUser None w2)))) of
        (Inl err, w') \<Rightarrow>
          (Inr (), console_error ''Sign out error:'' err (setUserProfile None (setUser None w')))
      | (Inr u, w') \<Rightarrow> (Inr u, w'))"

subsection \<open>\<open>updateUserStats\<close> (lines 188 to 225)\<close>

text \<open>Lines 191 to 194: the new totals, from the cached profile.\<close>

definition newTotalCorrect :: "profile option \<Rightarrow> real \<Rightarrow> real" where
  "newTotalCorrect p correct = num_or (opt_field p total_correct) 0 + correct"

definition newTotalWrong :: "profile option \<Rightarrow> real \<Rightarrow> real" where
  "newTotalWrong p wrong = num_or (opt_field p total_wrong) 0 + wrong"

definition currentCoins :: "profile option \<Rightarrow> real" where
  "currentCoins p = num_or (num_or_opt (opt_field p total_coins) (opt_field p money)) 0"

definition newTotalCoins :: "profile option \<Rightarrow> real \<Rightarrow> real" where
  "newTotalCoins p mny = of_int \<lfloor>currentCoins p + mny\<rfloor>"

text \<open>Lines 200 to 206: the fields written to the Profile Store.\<close>

definition stats_payload :: "profile option \<Rightarrow> real \<Rightarrow> real \<Rightarrow> real \<Rightarrow> profile" where
  "stats_payload p correct wrong mny = empty_profile
     \<lparr>total_correct := Some (newTotalCorrect p correct),
      total_wrong := Some (newTotalWrong p wrong),
      total_coins := Some (newTotalCoins p mny),
      money := Some (newTotalCoins p mny),
      total_correct_answers := Some (newTotalCorrect p correct)\<rparr>"

text \<open>Lines 214 to 221: the functional update of the cache; \<open>prev\<close> is the state at that time.\<close>

definition optimistic :: "profile option \<Rightarrow> real \<Rightarrow> real \<Rightarrow> real \<Rightarrow> profile option \<Rightarrow> profile option" where
  "optimistic p correct wrong mny prev =
     (case prev of
        None \<Rightarrow> None
      | Some r \<Rightarrow> Some (r\<lparr>total_correct := Some (newTotalCorrect p correct),
                          total_wrong := Some (newTotalWrong p wrong),
                          total_coins := Some (newTotalCoins p mny),
                          money := Some (newTotalCoins p mny),
                          total_correct_answers := Some (newTotalCorrect p correct)\<rparr>))"

definition updateUserStats ::
  "'b services \<Rightarrow> real \<Rightarrow> real \<Rightarrow> real \<Rightarrow> 'b auth_state \<Rightarrow> (error + unit) \<times> 'b auth_state" where
  "updateUserStats S correct wrong mny w =
     (case user w of
        None \<Rightarrow> (Inr (), w)
      | Some u \<Rightarrow>
         (let p = userProfile w;
              w0 = console_log (LogInfo ''[updateUserStats] Updating user:'' (user_id u)
                     (newTotalCoins p mny) (newTotalCorrect p correct) (newTotalWrong p wrong)) w
          in case db_update S (user_id u) (stats_payload p correct wrong mny) w0 of
               (Inl thrown, w1) \<Rightarrow> (Inl thrown, w1)
             | (Inr (Some err), w1) \<Rightarrow>
                 (Inl err, console_error ''[updateUserStats] Supabase update error:'' err w1)
             | (Inr None, w1) \<Rightarrow>
                 (Inr (), setTimeout (user_id u) 500
                            (setUserProfile (optimistic p correct wrong mny (userProfile w1)) w1))))"

subsection \<open>What the services answer\<close>

text \<open>
  Names for the answers of the services that the theorems distinguish, each read off the
  branch of \<open>fetchUserProfile\<close> that it selects, from the backend state \<open>b\<close> in which the
  function is called.
\<close>

text \<open>The lookup resolves with the error code that line 64 tests for.\<close>

definition row_missing :: "'b services \<Rightarrow> 'b \<Rightarrow> string \<Rightarrow> bool" where
  "row_missing S b userId =
     (case fst (svc_select S b userId) of
        Inl thrown \<Rightarrow> False
      | Inr res \<Rightarrow> (case sel_error res of
                      None \<Rightarrow> False
                    | Some err \<Rightarrow> err_code err = Some ''PGRST116''))"

text \<open>
  The failures of a call of \<open>fetchUserProfile\<close> from the backend state \<open>b\<close>, each with the
  error that the \<open>try\<close> block throws: one rule for each \<open>throw\<close> and each \<open>await\<close> that can
  reject, in the order of the source, and one for a failure of the recursive call, which
  lifts a failure at any depth to the outermost call.
\<close>

inductive fetch_fails :: "'b services \<Rightarrow> catalog_entry list \<Rightarrow> 'b \<Rightarrow> string \<Rightarrow> error \<Rightarrow> bool"
  for S :: "'b services" and chaptersData :: "catalog_entry list" where
  select_rejects:
    "svc_select S b userId = (Inl e, b_sel) \<Longrightarrow> fetch_fails S chaptersData b userId e"
| query_error:
    "svc_select S b userId = (Inr res, b_sel) \<Longrightarrow> sel_error res = Some err \<Longrightarrow>
     err_code err \<noteq> Some ''PGRST116'' \<Longrightarrow> fetch_fails S chaptersData b userId err"
| null_row:
    "svc_select S b userId = (Inr res, b_sel) \<Longrightarrow> sel_error res = None \<Longrightarrow>
     sel_data res = None \<Longrightarrow> fetch_fails S chaptersData b userId (TypeError ''data is null'')"
| backfill_rejects:
    "svc_select S b userId = (Inr res, b_sel) \<Longrightarrow> sel_error res = None \<Longrightarrow>
     sel_data res = Some d \<Longrightarrow> total_coins d = None \<Longrightarrow>
     svc_update S b_sel userId (backfill_payload d) = (Inl e, b_upd) \<Longrightarrow>
     fetch_fails S chaptersData b userId e"
| getUser_rejects:
    "svc_select S b userId = (Inr res, b_sel) \<Longrightarrow> sel_error res = Some err \<Longrightarrow>
     err_code err = Some ''PGRST116'' \<Longrightarrow> svc_getUser S b_sel = (Inl e, b_usr) \<Longrightarrow>
     fetch_fails S chaptersData b userId e"
| insert_rejects:
    "svc_select S b userId = (Inr res, b_sel) \<Longrightarrow> sel_error res = Some err \<Longrightarrow>
     err_code err = Some ''PGRST116'' \<Longrightarrow> svc_getUser S b_sel = (Inr (Some u), b_usr) \<Longrightarrow>
     svc_insert S b_usr (default_profile chaptersData u) = (Inl e, b_ins) \<Longrightarrow>
     fetch_fails S chaptersData b userId e"
| insert_error:
    "svc_select S b userId = (Inr res, b_sel) \<Longrightarrow> sel_error res = Some err \<Longrightarrow>
     err_code err = Some ''PGRST116'' \<Longrightarrow> svc_getUser S b_sel = (Inr (Some u), b_usr) \<Longrightarrow>
     svc_insert S b_usr (default_profile chaptersData u) = (Inr (Some insertError), b_ins) \<Longrightarrow>
     fetch_fails S chaptersData b userId insertError"
| refetch_fails:
    "svc_select S b userId = (Inr res, b_sel) \<Longrightarrow> sel_error res = Some err \<Longrightarrow>
     err_code err = Some ''PGRST116'' \<Longrightarrow> svc_getUser S b_sel = (Inr (Some u), b_usr) \<Longrightarrow>
     svc_insert S b_usr (default_profile chaptersData u) = (Inr None, b_ins) \<Longrightarrow>
     fetch_fails S chaptersData b_ins userId e \<Longrightarrow>
     fetch_fails S chaptersData b userId e"

code_pred fetch_fails .

text \<open>The state after a failure with \<open>e\<close>: that error logged, once, and the cached profile,
  the identity and the timers as before.\<close>

definition fetch_logged :: "'b auth_state \<Rightarrow> error \<Rightarrow> 'b auth_state \<Rightarrow> bool" where
  "fetch_logged w e w' =
     (console w' = console w @ [LogError ''Error fetching user profile:'' e] \<and>
      userProfile w' = userProfile w \<and> user w' = user w \<and> timers w' = timers w)"

text \<open>The backfill update of line 104 is issued and rejects.\<close>

definition backfill_throws :: "'b services \<Rightarrow> 'b \<Rightarrow> string \<Rightarrow> profile \<Rightarrow> bool" where
  "backfill_throws S b userId d =
     (total_coins d = None \<and> isl (fst (svc_update S b userId (backfill_payload d))))"

text \<open>A completed call either logged nothing, or resolved after logging one failure and
  left the cached profile as it was.\<close>

definition logged_or_clean :: "'b auth_state \<Rightarrow> (error + unit) \<times> 'b auth_state \<Rightarrow> bool" where
  "logged_or_clean w y =
     (fst y = Inr () \<and>
      (console (snd y) = console w \<or>
       (\<exists>e. console (snd y) = console w @ [LogError ''Error fetching user profile:'' e] \<and>
            userProfile (snd y) = userProfile w)))"

text \<open>What a caller and the collaborators see of a call: how it completed, the cached
  profile, the requests on record.\<close>

definition outcome :: "((error + unit) \<times> 'b auth_state) option
    \<Rightarrow> ((error + unit) \<times> profile option \<times> request list) option" where
  "outcome r = map_option (\<lambda>y. (fst y, userProfile (snd y), requests (snd y))) r"

text \<open>The requests issued between two states.\<close>

definition issued :: "'b auth_state \<Rightarrow> 'b auth_state \<Rightarrow> request list" where
  "issued w w' = drop (length (requests w)) (requests w')"

fun is_insert :: "request \<Rightarrow> bool" where
  "is_insert (DbInsert row) = True"
| "is_insert q = False"

text \<open>The catalog has at most one chapter for each pair of class level and order.\<close>

definition catalog_keyed :: "catalog_entry list \<Rightarrow> bool" where
  "catalog_keyed chaptersData =
     distinct (map (\<lambda>c. (chapter_class_level c, chapter_order c)) chaptersData)"

text \<open>The catalog has a first chapter (order 1) for class level \<open>k\<close>, and every such chapter has
  the id \<open>i\<close>.\<close>

definition first_chapter_is :: "catalog_entry list \<Rightarrow> real \<Rightarrow> string \<Rightarrow> bool" where
  "first_chapter_is chaptersData k i =
     ((\<exists>c \<in> set chaptersData. chapter_class_level c = k \<and> chapter_order c = 1) \<and>
      (\<forall>c \<in> set chaptersData. chapter_class_level c = k \<and> chapter_order c = 1
          \<longrightarrow> chapter_id c = i))"

subsection \<open>A reference backend\<close>

text \<open>
  An in-memory instance of the services, used to run the program on concrete inputs: a table
  keyed by id, the current identity, a list of faults and the column defaults of the table.
  Each call to the table, and the remote sign-out, takes the next fault from the list and, if
  it is an error, resolves with that error and does nothing else. An insert stores the row with the column defaults
  filled in where the row has no value.
\<close>

record mem =
  mem_table :: "(string \<times> profile) list"
  mem_current :: "auth_user option"
  mem_faults :: "error option list"
  mem_defaults :: profile

definition next_fault :: "mem \<Rightarrow> error option \<times> mem" where
  "next_fault m = (case mem_faults m of
       [] \<Rightarrow> (None, m)
     | f # fs \<Rightarrow> (f, m\<lparr>mem_faults := fs\<rparr>))"

definition not_found :: error where
  "not_found = ServiceError ''PGRST116'' ''JSON object requested, multiple (or no) rows returned''"

definition duplicate_key :: error where
  "duplicate_key = ServiceError ''23505'' ''duplicate key value violates unique constraint''"

definition mem_select :: "mem \<Rightarrow> string \<Rightarrow> (error + select_result) \<times> mem" where
  "mem_select m userId =
     (case next_fault m of
        (Some e, m') \<Rightarrow> (Inr \<lparr>sel_data = None, sel_error = Some e\<rparr>, m')
      | (None, m') \<Rightarrow>
         (case map_of (mem_table m') userId of
            None \<Rightarrow> (Inr \<lparr>sel_data = None, sel_error = Some not_found\<rparr>, m')
          | Some r \<Rightarrow> (Inr \<lparr>sel_data = Some r, sel_error = None\<rparr>, m')))"

definition merge_profile :: "profile \<Rightarrow> profile \<Rightarrow> profile" where
  "merge_profile r u =
     \<lparr>profile_id = nullish (profile_id u) (profile_id r),
      email = nullish (email u) (email r),
      name = nullish (name u) (name r),
      class_level = nullish (class_level u) (class_level r),
      total_coins = nullish (total_coins u) (total_coins r),
      total_correct = nullish (total_correct u) (total_correct r),
      total_wrong = nullish (total_wrong u) (total_wrong r),
      avatar_id = nullish (avatar_id u) (avatar_id r),
      unlocked_chapters = nullish (unlocked_chapters u) (unlocked_chapters r),
      diagnostic_completed = nullish (diagnostic_completed u) (diagnostic_completed r),
      phone = nullish (phone u) (phone r),
      full_name = nullish (full_name u) (full_name r),
      avatar_url = nullish (avatar_url u) (avatar_url r),
      money = nullish (money u) (money r),
      total_correct_answers = nullish (total_correct_answers u) (total_correct_answers r)\<rparr>"

definition mem_insert :: "mem \<Rightarrow> profile \<Rightarrow> (error + error option) \<times> mem" where
  "mem_insert m row =
     (case next_fault m of
        (Some e, m') \<Rightarrow> (Inr (Some e), m')
      | (None, m') \<Rightarrow>
         (case profile_id row of
            None \<Rightarrow> (Inr (Some (ServiceError ''23502'' ''null value in column id'')), m')
          | Some k \<Rightarrow>
             if map_of (mem_table m') k \<noteq> None then (Inr (Some duplicate_key), m')
             else (Inr None, m'\<lparr>mem_table :=
                     mem_table m' @ [(k, merge_profile (mem_defaults m') row)]\<rparr>)))"

definition mem_update :: "mem \<Rightarrow> string \<Rightarrow> profile \<Rightarrow> (error + error option) \<times> mem" where
  "mem_update m userId payload =
     (case next_fault m of
        (Some e, m') \<Rightarrow> (Inr (Some e), m')
      | (None, m') \<Rightarrow>
         (Inr None, m'\<lparr>mem_table :=
            map (\<lambda>(k, r). if k = userId then (k, merge_profile r payload) else (k, r))
                (mem_table m')\<rparr>))"

definition mem_getUser :: "mem \<Rightarrow> (error + auth_user option) \<times> mem" where
  "mem_getUser m = (Inr (mem_current m), m)"

definition mem_getSession :: "mem \<Rightarrow> (error + session option) \<times> mem" where
  "mem_getSession m =
     (Inr (case mem_current m of None \<Rightarrow> None | Some u \<Rightarrow> Some \<lparr>session_user = u\<rparr>), m)"

definition mem_signUp :: "mem \<Rightarrow> string \<Rightarrow> string \<Rightarrow> string option \<Rightarrow> real option
    \<Rightarrow> (error + signup_result) \<times> mem" where
  "mem_signUp m em pw nm cl =
     (let u = \<lparr>user_id = ''id-'' @ em, user_email = Some em, user_metadata_name = nm\<rparr>
      in (Inr \<lparr>su_user = Some u, su_error = None\<rparr>, m\<lparr>mem_current := Some u\<rparr>))"

definition mem_signOut :: "mem \<Rightarrow> (error + error option) \<times> mem" where
  "mem_signOut m =
     (case next_fault m of
        (Some e, m') \<Rightarrow> (Inr (Some e), m')
      | (None, m') \<Rightarrow> (Inr None, m'\<lparr>mem_current := None\<rparr>))"

definition mem_services :: "mem services" where
  "mem_services = \<lparr>svc_select = mem_select, svc_insert = mem_insert, svc_update = mem_update,
     svc_getUser = mem_getUser, svc_getSession = mem_getSession, svc_signUp = mem_signUp,
     svc_signOut = mem_signOut\<rparr>"

text \<open>Sample data: an identity, a catalog, an empty backend, the row that \<open>signUp\<close> inserts
  for class level 9, and a legacy row that has \<open>money\<close> and no \<open>total_coins\<close>.\<close>

definition sample_user :: auth_user where
  "sample_user = \<lparr>user_id = ''u1'', user_email = Some ''ann@example.org'',
     user_metadata_name = Some ''Ann''\<rparr>"

definition class9_ch1 :: catalog_entry where
  "class9_ch1 = \<lparr>chapter_id = ''class9_ch1'', chapter_class_level = 9, chapter_order = 1\<rparr>"

definition sample_catalog :: "catalog_entry list" where
  "sample_catalog =
     [\<lparr>chapter_id = ''class1_ch1'', chapter_class_level = 1, chapter_order = 1\<rparr>,
      \<lparr>chapter_id = ''class9_ch2'', chapter_class_level = 9, chapter_order = 2\<rparr>,
      class9_ch1]"

definition mem_empty :: mem where
  "mem_empty = \<lparr>mem_table = [], mem_current = None, mem_faults = [],
     mem_defaults = empty_profile\<rparr>"

definition signed_up_row :: profile where
  "signed_up_row = signUp_profile sample_catalog ''ann@example.org''
     (empty_profile\<lparr>name := Some ''Ann'', class_level := Some 9\<rparr>) sample_user"

definition legacy_row :: profile where
  "legacy_row = empty_profile\<lparr>profile_id := Some ''u1'', email := Some ''ann@example.org'',
     full_name := Some ''Ann'', money := Some 75\<rparr>"

text \<open>A store that accepts every insert and never finds a row, with a current user.\<close>

definition stubborn :: "unit services" where
  "stubborn =
     \<lparr>svc_select = (\<lambda>b uid. (Inr \<lparr>sel_data = None, sel_error = Some not_found\<rparr>, b)),
      svc_insert = (\<lambda>b row. (Inr None, b)),
      svc_update = (\<lambda>b uid p. (Inr None, b)),
      svc_getUser = (\<lambda>b. (Inr (Some sample_user), b)),
      svc_getSession = (\<lambda>b. (Inr None, b)),
      svc_signUp = (\<lambda>b em pw nm cl. (Inr \<lparr>su_user = None, su_error = None\<rparr>, b)),
      svc_signOut = (\<lambda>b. (Inr None, b))\<rparr>"

definition boom :: error where
  "boom = ServiceError ''500'' ''internal error''"

definition denied :: error where
  "denied = ServiceError ''42501'' ''permission denied for table user_profiles''"

text \<open>The reference backend with a table whose updates reject.\<close>

definition mem_rejecting :: "mem services" where
  "mem_rejecting = mem_services\<lparr>svc_update := (\<lambda>m userId payload. (Inl boom, m))\<rparr>"

text \<open>The state of a freshly mounted provider (lines 21 and 22), over a backend state.\<close>

definition initial :: "'b \<Rightarrow> 'b auth_state" where
  "initial b = \<lparr>user = None, userProfile = None, timers = [], console = [], requests = [],
     backend = b\<rparr>"

section \<open>Properties\<close>

subsection \<open>Auxiliary facts\<close>

lemmas svc_defs = db_select_def db_insert_def db_update_def auth_getUser_def auth_getSession_def
  auth_signUp_def auth_signOut_def call_def

lemmas js_defs = str_or_def num_or_def str_or_opt_def num_or_opt_def opt_field_def

lemmas mem_defs = mem_services_def mem_select_def mem_insert_def mem_update_def mem_getUser_def
  mem_getSession_def mem_signUp_def mem_signOut_def next_fault_def not_found_def
  duplicate_key_def merge_profile_def nullish_def mem_empty_def initial_def Let_def
  class9_ch1_def sample_user_def boom_def

text \<open>A call to a service changes neither the console nor the cached profile.\<close>

lemma call_frame:
  "call q rb w = (r, w1) \<Longrightarrow> console w1 = console w \<and> userProfile w1 = userProfile w"
  by (auto simp: call_def)

lemma db_select_frame:
  "db_select S uid w = (r, w1) \<Longrightarrow> console w1 = console w \<and> userProfile w1 = userProfile w"
  unfolding db_select_def by (rule call_frame)

lemma db_insert_frame:
  "db_insert S row w = (r, w1) \<Longrightarrow> console w1 = console w \<and> userProfile w1 = userProfile w"
  unfolding db_insert_def by (rule call_frame)

lemma db_update_frame:
  "db_update S uid p w = (r, w1) \<Longrightarrow> console w1 = console w \<and> userProfile w1 = userProfile w"
  unfolding db_update_def by (rule call_frame)

lemma auth_getUser_frame:
  "auth_getUser S w = (r, w1) \<Longrightarrow> console w1 = console w \<and> userProfile w1 = userProfile w"
  unfolding auth_getUser_def by (rule call_frame)

text \<open>
  The invariant of \<open>fetchUserProfile\<close> at every depth of its recursion, by the induction
  principle of the partial function: the step may assume it of the inner call.
\<close>

lemma fetchUserProfile_logged_or_clean:
  assumes "fetchUserProfile S cd uid w = Some y"
  shows "logged_or_clean w y"
proof (rule fetchUserProfile.raw_induct
         [where P = "\<lambda>S cd uid w y. logged_or_clean w y", OF _ assms], goal_cases)
  case (1 f S cd uid w y)
  from 1(2) show ?case
    apply (clarsimp simp: catch_log_def
             split: Option.bind_splits prod.splits sum.splits option.splits if_splits)
    apply (auto dest!: db_select_frame db_insert_frame db_update_frame auth_getUser_frame 1(1)
             simp: console_error_def setUserProfile_def logged_or_clean_def)
    done
qed

text \<open>Against the stubborn store the call never completes: a result would have to come from
  the inner call, at every depth.\<close>

lemma fetchUserProfile_may_not_return:
  "fetchUserProfile stubborn cd uid w = None"
proof (rule ccontr)
  assume "fetchUserProfile stubborn cd uid w \<noteq> None"
  then obtain y where y: "fetchUserProfile stubborn cd uid w = Some y"
    by auto
  have "stubborn \<noteq> stubborn"
  proof (rule fetchUserProfile.raw_induct
           [where P = "\<lambda>S cd uid w y. S \<noteq> stubborn", OF _ y], goal_cases)
    case (1 f S cd uid w y)
    show ?case
    proof
      assume S: "S = stubborn"
      from 1(2) obtain x w3 where "f stubborn cd uid w3 = Some x"
        unfolding S
        by (auto simp: svc_defs stubborn_def not_found_def split: Option.bind_splits)
      from 1(1)[OF this] show False by simp
    qed
  qed
  then show False by simp
qed

text \<open>The \<open>catch\<close> around a recursive call has nothing to catch.\<close>

lemma fetchUserProfile_catch_inner:
  assumes "fetchUserProfile S cd uid w = Some y"
  shows "Option.bind (fetchUserProfile S cd uid w) (\<lambda>r. Some (catch_log tag r)) = Some y"
proof -
  from fetchUserProfile_logged_or_clean[OF assms] have "fst y = Inr ()"
    by (simp add: logged_or_clean_def)
  then show ?thesis using assms by (cases y) (simp add: catch_log_def)
qed

lemma default_profile_fields:
  "class_level (default_profile cd u) = Some 1"
  "total_coins (default_profile cd u) = Some 100"
  "total_correct (default_profile cd u) = Some 0"
  "total_wrong (default_profile cd u) = Some 0"
  "avatar_id (default_profile cd u) = Some 1"
  "unlocked_chapters (default_profile cd u) =
     Some (case firstChapter_default cd of Some c \<Rightarrow> [chapter_id c] | None \<Rightarrow> [''class9_ch1''])"
  by (simp_all add: default_profile_def empty_profile_def)

lemmas rej_defs = mem_rejecting_def denied_def

text \<open>A call to a service asks the backend in its current state, moves to the state that the
  backend answers with, and changes nothing else but the record of requests.\<close>

lemma call_keeps:
  "call q rb w = (r, w1) \<Longrightarrow>
     rb = (r, backend w1) \<and> console w1 = console w \<and> userProfile w1 = userProfile w \<and>
     user w1 = user w \<and> timers w1 = timers w"
  by (cases rb) (auto simp: call_def)

lemma db_select_keeps:
  "db_select S uid w = (r, w1) \<Longrightarrow>
     svc_select S (backend w) uid = (r, backend w1) \<and> console w1 = console w \<and>
     userProfile w1 = userProfile w \<and> user w1 = user w \<and> timers w1 = timers w"
  unfolding db_select_def by (rule call_keeps)

lemma db_insert_keeps:
  "db_insert S row w = (r, w1) \<Longrightarrow>
     svc_insert S (backend w) row = (r, backend w1) \<and> console w1 = console w \<and>
     userProfile w1 = userProfile w \<and> user w1 = user w \<and> timers w1 = timers w"
  unfolding db_insert_def by (rule call_keeps)

lemma db_update_keeps:
  "db_update S uid p w = (r, w1) \<Longrightarrow>
     svc_update S (backend w) uid p = (r, backend w1) \<and> console w1 = console w \<and>
     userProfile w1 = userProfile w \<and> user w1 = user w \<and> timers w1 = timers w"
  unfolding db_update_def by (rule call_keeps)

lemma auth_getUser_keeps:
  "auth_getUser S w = (r, w1) \<Longrightarrow>
     svc_getUser S (backend w) = (r, backend w1) \<and> console w1 = console w \<and>
     userProfile w1 = userProfile w \<and> user w1 = user w \<and> timers w1 = timers w"
  unfolding auth_getUser_def by (rule call_keeps)

text \<open>Every failure ends in a resolved call, the error logged and the rest of the state
  untouched: by induction on the failure, so at every depth of the recursion.\<close>

lemma fetchUserProfile_fails_logged:
  assumes "fetch_fails S cd b uid e" "backend w = b"
  shows "\<exists>w'. fetchUserProfile S cd uid w = Some (Inr (), w') \<and> fetch_logged w e w'"
  using assms
proof (induction arbitrary: w rule: fetch_fails.induct)
  case (refetch_fails b userId res b_sel err u b_usr b_ins e)
  let ?w3 = "w\<lparr>requests := requests w @ [DbSelect userId, AuthGetUser,
                 DbInsert (default_profile cd u)], backend := b_ins\<rparr>"
  have "backend ?w3 = b_ins" by simp
  from refetch_fails.IH[OF this] obtain w' where
    w': "fetchUserProfile S cd userId ?w3 = Some (Inr (), w')" "fetch_logged ?w3 e w'"
    by blast
  have "fetchUserProfile S cd userId w =
          Option.bind (fetchUserProfile S cd userId ?w3)
            (\<lambda>r. Some (catch_log ''Error fetching user profile:'' r))"
    using refetch_fails.hyps(1-5) refetch_fails.prems
    by (subst fetchUserProfile.simps) (simp add: svc_defs)
  also have "\<dots> = Some (Inr (), w')"
    by (rule fetchUserProfile_catch_inner[OF w'(1)])
  finally show ?case using w'(2) by (auto simp: fetch_logged_def)
qed (subst fetchUserProfile.simps,
     simp add: svc_defs catch_log_def console_error_def fetch_logged_def)+


text \<open>Every call that completes has resolved, and either logged nothing (and then left the
  cache alone or stored a row in it) or failed in the sense above and logged that failure:
  by the induction principle of the partial function, with one case for each branch.\<close>

lemma fetchUserProfile_completed:
  assumes "fetchUserProfile S cd uid w = Some y"
  shows "fst y = Inr () \<and>
         ((console (snd y) = console w \<and>
           (userProfile (snd y) = userProfile w \<or> (\<exists>d. userProfile (snd y) = Some d))) \<or>
          (\<exists>e. fetch_fails S cd (backend w) uid e \<and> fetch_logged w e (snd y)))"
proof (rule fetchUserProfile.raw_induct
         [where P = "\<lambda>S cd uid w y. fst y = Inr () \<and>
            ((console (snd y) = console w \<and>
              (userProfile (snd y) = userProfile w \<or> (\<exists>d. userProfile (snd y) = Some d))) \<or>
             (\<exists>e. fetch_fails S cd (backend w) uid e \<and> fetch_logged w e (snd y)))",
          OF _ assms], goal_cases)
  case (1 f S cd uid w y)
  obtain r w1 where sel: "db_select S uid w = (r, w1)"
    by (cases "db_select S uid w")
  note k1 = db_select_keeps[OF sel]
  show ?case
  proof (cases r)
    case (Inl e)
    with 1(2) sel k1 show ?thesis
      by (auto simp: catch_log_def console_error_def fetch_logged_def
               intro: fetch_fails.select_rejects)
  next
    case (Inr res)
    show ?thesis
    proof (cases "sel_error res")
      case None
      show ?thesis
      proof (cases "sel_data res")
        case nodata: None
        with 1(2) sel k1 Inr None show ?thesis
          by (auto simp: catch_log_def console_error_def fetch_logged_def
                   intro: fetch_fails.null_row)
      next
        case (Some d)
        show ?thesis
        proof (cases "total_coins d = None")
          case False
          with 1(2) sel k1 Inr None Some show ?thesis
            by (auto simp: catch_log_def setUserProfile_def)
        next
          case True
          obtain r2 w2 where upd: "db_update S uid (backfill_payload d) w1 = (r2, w2)"
            by (cases "db_update S uid (backfill_payload d) w1")
          note k2 = db_update_keeps[OF upd]
          show ?thesis
          proof (cases r2)
            case (Inl e)
            have "fetch_fails S cd (backend w) uid e"
              using k1 k2 Inr None Some True Inl
              by (auto intro: fetch_fails.backfill_rejects)
            with 1(2) sel k1 k2 upd Inr None Some True Inl show ?thesis
              by (auto simp: catch_log_def console_error_def fetch_logged_def)
          next
            case r2r: (Inr x)
            with 1(2) sel k1 k2 upd Inr None Some True show ?thesis
              by (auto simp: catch_log_def setUserProfile_def)
          qed
        qed
      qed
    next
      case (Some err)
      show ?thesis
      proof (cases "err_code err = Some ''PGRST116''")
        case False
        have "fetch_fails S cd (backend w) uid err"
          using k1 Inr Some False by (auto intro: fetch_fails.query_error)
        with 1(2) sel k1 Inr Some False show ?thesis
          by (auto simp: catch_log_def console_error_def fetch_logged_def)
      next
        case True
        obtain r2 w2 where gu: "auth_getUser S w1 = (r2, w2)"
          by (cases "auth_getUser S w1")
        note k2 = auth_getUser_keeps[OF gu]
        show ?thesis
        proof (cases r2)
          case (Inl e)
          have "fetch_fails S cd (backend w) uid e"
            using k1 k2 Inr Some True Inl by (auto intro: fetch_fails.getUser_rejects)
          with 1(2) sel k1 k2 gu Inr Some True Inl show ?thesis
            by (auto simp: catch_log_def console_error_def fetch_logged_def)
        next
          case r2r: (Inr ou)
          show ?thesis
          proof (cases ou)
            case nouser: None
            with 1(2) sel k1 k2 gu Inr Some True r2r show ?thesis
              by (auto simp: catch_log_def)
          next
            case usr: (Some u)
            obtain r3 w3 where ins: "db_insert S (default_profile cd u) w2 = (r3, w3)"
              by (cases "db_insert S (default_profile cd u) w2")
            note k3 = db_insert_keeps[OF ins]
            show ?thesis
            proof (cases r3)
              case (Inl e)
              have "fetch_fails S cd (backend w) uid e"
                using k1 k2 k3 Inr Some True r2r usr Inl
                by (auto intro: fetch_fails.insert_rejects)
              with 1(2) sel k1 k2 k3 gu ins Inr Some True r2r usr Inl show ?thesis
                by (auto simp: catch_log_def console_error_def fetch_logged_def)
            next
              case r3r: (Inr oe)
              show ?thesis
              proof (cases oe)
                case ie: (Some insertError)
                have "fetch_fails S cd (backend w) uid insertError"
                  using k1 k2 k3 Inr Some True r2r usr r3r ie
                  by (auto intro: fetch_fails.insert_error)
                with 1(2) sel k1 k2 k3 gu ins Inr Some True r2r usr r3r ie show ?thesis
                  by (auto simp: catch_log_def console_error_def fetch_logged_def)
              next
                case ok: None
                from 1(2) sel gu ins Inr Some True r2r usr r3r ok
                obtain x where x: "f S cd uid w3 = Some x" "y = catch_log ''Error fetching user profile:'' x"
                  by (auto split: Option.bind_splits)
                from 1(1)[OF x(1)] have ih: "fst x = Inr ()"
                  "(console (snd x) = console w3 \<and>
                     (userProfile (snd x) = userProfile w3 \<or> (\<exists>d. userProfile (snd x) = Some d))) \<or>
                   (\<exists>e. fetch_fails S cd (backend w3) uid e \<and> fetch_logged w3 e (snd x))"
                  by simp_all
                from ih(1) x(2) have yx: "y = x"
                  by (cases x) (simp add: catch_log_def)
                have lift: "fetch_fails S cd (backend w) uid e" if "fetch_fails S cd (backend w3) uid e" for e
                  using k1 k2 k3 Inr Some True r2r usr r3r ok that
                  by (auto intro: fetch_fails.refetch_fails)
                from ih k1 k2 k3 lift show ?thesis
                  unfolding yx by (auto simp: fetch_logged_def)
              qed
            qed
          qed
        qed
      qed
    qed
  qed
qed


text \<open>The lookup of \<open>signUp\<close> takes the first match. Where the catalog has a first chapter for
  the class level under one id, that is the id it finds; a keyed catalog that contains the
  chapter is such a catalog.\<close>

lemma firstChapter_for_id:
  assumes "first_chapter_is cd k i"
  shows "\<exists>c. firstChapter_for cd (Some k) = Some c \<and> chapter_id c = i"
proof (cases "firstChapter_for cd (Some k)")
  case None
  with assms show ?thesis
    by (auto simp: firstChapter_for_def first_chapter_is_def find_None_iff)
next
  case (Some c)
  then have "c \<in> set cd" "chapter_class_level c = k" "chapter_order c = 1"
    by (auto simp: firstChapter_for_def find_Some_iff)
  with assms Some show ?thesis
    by (auto simp: first_chapter_is_def)
qed

lemma catalog_keyed_first_chapter_is:
  assumes "catalog_keyed cd" "c \<in> set cd" "chapter_class_level c = k" "chapter_order c = 1"
  shows "first_chapter_is cd k (chapter_id c)"
  unfolding first_chapter_is_def
proof (intro conjI ballI impI)
  from assms(2-4) show "\<exists>c\<in>set cd. chapter_class_level c = k \<and> chapter_order c = 1"
    by blast
next
  fix c' assume c': "c' \<in> set cd" "chapter_class_level c' = k \<and> chapter_order c' = 1"
  from assms(1) have inj: "inj_on (\<lambda>c. (chapter_class_level c, chapter_order c)) (set cd)"
    by (simp add: catalog_keyed_def distinct_map)
  have "(chapter_class_level c', chapter_order c') = (chapter_class_level c, chapter_order c)"
    using c'(2) assms(3,4) by simp
  with inj c'(1) assms(2) have "c' = c"
    by (simp add: inj_on_def)
  then show "chapter_id c' = chapter_id c"
    by simp
qed

text \<open>What \<open>updateUserStats\<close> writes: the counters are additive, both currency fields get the
  same value, and the balance starts from \<open>total_coins\<close> when that is present and not zero.\<close>

lemma stats_payload_counters:
  "total_correct (stats_payload p c wr m) = Some (num_or (opt_field p total_correct) 0 + c)"
  "total_wrong (stats_payload p c wr m) = Some (num_or (opt_field p total_wrong) 0 + wr)"
  "total_correct_answers (stats_payload p c wr m) = total_correct (stats_payload p c wr m)"
  by (simp_all add: stats_payload_def empty_profile_def newTotalCorrect_def newTotalWrong_def)

lemma stats_payload_coins_eq_money:
  "total_coins (stats_payload p c wr m) = money (stats_payload p c wr m)"
  by (simp add: stats_payload_def empty_profile_def)

lemma newTotalCoins_nonzero:
  "total_coins r = Some x \<Longrightarrow> x \<noteq> 0 \<Longrightarrow> newTotalCoins (Some r) m = of_int \<lfloor>x + m\<rfloor>"
  by (simp add: newTotalCoins_def currentCoins_def js_defs)

lemma newTotalCoins_zero:
  "total_coins r = Some 0 \<Longrightarrow> money r = Some x \<Longrightarrow> newTotalCoins (Some r) m = of_int \<lfloor>x + m\<rfloor>"
  by (simp add: newTotalCoins_def currentCoins_def js_defs)

text \<open>The scenario of the specification: \<open>updateUserStats(2, 1, 10.7)\<close> on a profile with
  \<open>total_correct = 5\<close>, \<open>total_wrong = 3\<close>, \<open>total_coins = 50\<close> writes 7, 4 and 60.\<close>

lemma stats_payload_scenario:
  "stats_payload (Some (empty_profile\<lparr>total_correct := Some 5, total_wrong := Some 3,
       total_coins := Some 50\<rparr>)) 2 1 (107 / 10) =
     empty_profile\<lparr>total_correct := Some 7, total_wrong := Some 4, total_coins := Some 60,
       money := Some 60, total_correct_answers := Some 7\<rparr>"
  by (simp add: stats_payload_def newTotalCorrect_def newTotalWrong_def newTotalCoins_def
        currentCoins_def js_defs empty_profile_def)

text \<open>The row of the create-on-missing branch always unlocks one chapter; the row of \<open>signUp\<close>
  unlocks none when the catalog lookup finds nothing.\<close>

lemma default_profile_unlocked_nonempty:
  "\<exists>cs. unlocked_chapters (default_profile cd u) = Some cs \<and> cs \<noteq> []"
  by (simp add: default_profile_def empty_profile_def split: option.splits)

lemma signUp_profile_unlocked_empty:
  "firstChapter_for cd (class_level userData) = None \<Longrightarrow>
     unlocked_chapters (signUp_profile cd em userData u) = Some []"
  by (simp add: signUp_profile_def empty_profile_def)

subsection \<open>Create-on-missing\<close>

text \<open>
  Claim C1, as amended. For every identity with no profile row (the lookup resolves with the
  not-found code), when the Auth Service reports a current user, the insert of the derived
  defaults succeeds, the re-fetch finds a row \<open>d\<close> and the backfill update of \<open>d\<close> (issued only
  if \<open>d\<close> has no \<open>total_coins\<close>) does not throw, \<open>fetchUserProfile\<close> completes, issues exactly
  one insert, of the row with \<open>class_level = 1\<close>, \<open>total_coins = 100\<close>, \<open>total_correct = 0\<close>,
  \<open>total_wrong = 0\<close>, \<open>avatar_id = 1\<close> and \<open>unlocked_chapters\<close> the first catalog chapter of class
  level 1 or else \<open>class9_ch1\<close>, and the cached profile is \<open>d\<close>, the row as the re-fetch read it,
  whatever the store made of the inserted draft.
\<close>

theorem fetchUserProfile_creates_missing_profile:
  assumes sel: "svc_select S (backend w) userId = (Inr res, b1)"
    and err: "sel_error res = Some err" "err_code err = Some ''PGRST116''"
    and usr: "svc_getUser S b1 = (Inr (Some u), b2)"
    and ins: "svc_insert S b2 (default_profile chaptersData u) = (Inr None, b3)"
    and re: "svc_select S b3 userId = (Inr \<lparr>sel_data = Some d, sel_error = None\<rparr>, b4)"
    and bf: "\<not> backfill_throws S b4 userId d"
  shows "\<exists>w'. fetchUserProfile S chaptersData userId w = Some (Inr (), w') \<and>
           userProfile w' = Some d \<and>
           issued w w' =
             [DbSelect userId, AuthGetUser, DbInsert (default_profile chaptersData u),
              DbSelect userId]
             @ (if total_coins d = None then [DbUpdate userId (backfill_payload d)] else []) \<and>
           filter is_insert (issued w w') = [DbInsert (default_profile chaptersData u)] \<and>
           class_level (default_profile chaptersData u) = Some 1 \<and>
           total_coins (default_profile chaptersData u) = Some 100 \<and>
           total_correct (default_profile chaptersData u) = Some 0 \<and>
           total_wrong (default_profile chaptersData u) = Some 0 \<and>
           avatar_id (default_profile chaptersData u) = Some 1 \<and>
           unlocked_chapters (default_profile chaptersData u) =
             Some (case firstChapter_default chaptersData of
                     Some c \<Rightarrow> [chapter_id c] | None \<Rightarrow> [''class9_ch1''])"
proof -
  let ?w3 = "w\<lparr>requests := requests w @ [DbSelect userId, AuthGetUser,
                 DbInsert (default_profile chaptersData u)], backend := b3\<rparr>"
  have second: "\<exists>w'. fetchUserProfile S chaptersData userId ?w3 = Some (Inr (), w') \<and>
           userProfile w' = Some d \<and>
           requests w' = requests ?w3 @ [DbSelect userId]
              @ (if total_coins d = None then [DbUpdate userId (backfill_payload d)] else [])"
    using bf
    by (subst fetchUserProfile.simps)
       (auto simp: svc_defs re catch_log_def backfill_throws_def setUserProfile_def
             split: prod.splits sum.splits)
  then obtain w' where w': "fetchUserProfile S chaptersData userId ?w3 = Some (Inr (), w')"
      "userProfile w' = Some d"
      "requests w' = requests ?w3 @ [DbSelect userId]
              @ (if total_coins d = None then [DbUpdate userId (backfill_payload d)] else [])"
    by blast
  have "fetchUserProfile S chaptersData userId w =
          Option.bind (fetchUserProfile S chaptersData userId ?w3)
            (\<lambda>r. Some (catch_log ''Error fetching user profile:'' r))"
    by (subst fetchUserProfile.simps) (simp add: svc_defs sel err usr ins)
  also have "\<dots> = Some (Inr (), w')"
    by (rule fetchUserProfile_catch_inner[OF w'(1)])
  finally have first: "fetchUserProfile S chaptersData userId w = Some (Inr (), w')" .
  have iss: "issued w w' =
      [DbSelect userId, AuthGetUser, DbInsert (default_profile chaptersData u), DbSelect userId]
      @ (if total_coins d = None then [DbUpdate userId (backfill_payload d)] else [])"
    by (simp add: issued_def w'(3))
  have "filter is_insert (issued w w') = [DbInsert (default_profile chaptersData u)]"
    by (simp add: iss)
  with first w'(2) iss show ?thesis
    by (simp add: default_profile_fields)
qed

text \<open>
  An instance: a store with no row for \<open>u1\<close> whose table fills the column
  \<open>total_correct_answers\<close> with \<open>0\<close>. The cached profile is the stored row, which is not the
  inserted draft.
\<close>

theorem fetchUserProfile_creates_missing_profile_witness:
  "outcome (fetchUserProfile mem_services sample_catalog ''u1''
     (initial (mem_empty\<lparr>mem_current := Some sample_user,
         mem_defaults := empty_profile\<lparr>total_correct_answers := Some 0\<rparr>\<rparr>))) =
     Some (Inr (),
           Some ((default_profile sample_catalog sample_user)\<lparr>total_correct_answers := Some 0\<rparr>),
           [DbSelect ''u1'', AuthGetUser, DbInsert (default_profile sample_catalog sample_user),
            DbSelect ''u1'']) \<and>
   (default_profile sample_catalog sample_user)\<lparr>total_correct_answers := Some 0\<rparr>
     \<noteq> default_profile sample_catalog sample_user"
proof -
  let ?m0 = "mem_empty\<lparr>mem_current := Some sample_user,
               mem_defaults := empty_profile\<lparr>total_correct_answers := Some 0\<rparr>\<rparr>"
  let ?draft = "default_profile sample_catalog sample_user"
  let ?d = "?draft\<lparr>total_correct_answers := Some 0\<rparr>"
  let ?m1 = "?m0\<lparr>mem_table := [(''u1'', ?d)]\<rparr>"
  have h1: "svc_select mem_services (backend (initial ?m0)) ''u1'' =
              (Inr \<lparr>sel_data = None, sel_error = Some not_found\<rparr>, ?m0)"
    by (simp add: mem_defs)
  have h2: "sel_error \<lparr>sel_data = None, sel_error = Some not_found\<rparr> = Some not_found"
    by simp
  have h3: "err_code not_found = Some ''PGRST116''"
    by (simp add: not_found_def)
  have h4: "svc_getUser mem_services ?m0 = (Inr (Some sample_user), ?m0)"
    by (simp add: mem_defs)
  have h5: "svc_insert mem_services ?m0 ?draft = (Inr None, ?m1)"
    by (simp add: mem_defs default_profile_def empty_profile_def)
  have h6: "svc_select mem_services ?m1 ''u1'' = (Inr \<lparr>sel_data = Some ?d, sel_error = None\<rparr>, ?m1)"
    by (simp add: mem_defs)
  have h7: "\<not> backfill_throws mem_services ?m1 ''u1'' ?d"
    by (simp add: backfill_throws_def default_profile_def)
  have tc: "total_coins ?d \<noteq> None"
    by (simp add: default_profile_def)
  have ne: "?d \<noteq> ?draft"
    by (simp add: default_profile_def empty_profile_def)
  from fetchUserProfile_creates_missing_profile[OF h1 h2 h3 h4 h5 h6 h7]
  obtain w' where "fetchUserProfile mem_services sample_catalog ''u1'' (initial ?m0) = Some (Inr (), w')"
    and "userProfile w' = Some ?d"
    and "issued (initial ?m0) w' =
           [DbSelect ''u1'', AuthGetUser, DbInsert ?draft, DbSelect ''u1'']
           @ (if total_coins ?d = None then [DbUpdate ''u1'' (backfill_payload ?d)] else [])"
    by blast
  with tc ne show ?thesis
    by (simp add: outcome_def issued_def initial_def)
qed

text \<open>
  Claim C1 as it is stated fails where the Auth Service has no current user: the row is
  missing, the call completes, and no insert is issued and nothing is cached.
\<close>

theorem fetchUserProfile_no_user_no_insert:
  "row_missing mem_services mem_empty ''u1'' \<and>
   fetchUserProfile mem_services sample_catalog ''u1'' (initial mem_empty) =
     Some (Inr (), \<lparr>user = None, userProfile = None, timers = [], console = [],
                    requests = [DbSelect ''u1'', AuthGetUser], backend = mem_empty\<rparr>)"
  apply (rule conjI)
   apply (simp add: row_missing_def mem_defs)
  apply (subst fetchUserProfile.simps)
  apply (simp add: svc_defs mem_defs catch_log_def)
  done

text \<open>
  Claim C10. In the create-on-missing branch, if the Auth Service reports no current user,
  \<open>fetchUserProfile\<close> resolves after the lookup and the \<open>getUser\<close> call: it issues no insert
  and no second lookup, leaves the cached profile and the console as they were, and throws
  nothing.
\<close>

theorem fetchUserProfile_no_current_user:
  assumes sel: "svc_select S (backend w) userId = (Inr res, b1)"
    and err: "sel_error res = Some err" "err_code err = Some ''PGRST116''"
    and usr: "svc_getUser S b1 = (Inr None, b2)"
  shows "fetchUserProfile S chaptersData userId w =
           Some (Inr (), w\<lparr>requests := requests w @ [DbSelect userId, AuthGetUser],
                            backend := b2\<rparr>)"
  by (subst fetchUserProfile.simps) (simp add: svc_defs assms catch_log_def)

text \<open>An instance with a profile in the cache before the call: it is still there after.\<close>

theorem fetchUserProfile_no_current_user_witness:
  "fetchUserProfile mem_services sample_catalog ''u1''
      ((initial mem_empty)\<lparr>userProfile := Some legacy_row\<rparr>) =
     Some (Inr (), \<lparr>user = None, userProfile = Some legacy_row, timers = [], console = [],
                    requests = [DbSelect ''u1'', AuthGetUser], backend = mem_empty\<rparr>)"
proof -
  let ?w = "(initial mem_empty)\<lparr>userProfile := Some legacy_row\<rparr>"
  have h1: "svc_select mem_services (backend ?w) ''u1'' =
              (Inr \<lparr>sel_data = None, sel_error = Some not_found\<rparr>, mem_empty)"
    by (simp add: mem_defs)
  have h2: "sel_error \<lparr>sel_data = None, sel_error = Some not_found\<rparr> = Some not_found"
    by simp
  have h3: "err_code not_found = Some ''PGRST116''"
    by (simp add: not_found_def)
  have h4: "svc_getUser mem_services mem_empty = (Inr None, mem_empty)"
    by (simp add: mem_defs)
  from fetchUserProfile_no_current_user[OF h1 h2 h3 h4, of sample_catalog]
  show ?thesis by (simp add: initial_def)
qed

subsection \<open>An existing row\<close>

text \<open>
  Claim C6. When the lookup finds a row \<open>d\<close>, \<open>fetchUserProfile\<close> resolves and what it stores
  in the cache is \<open>d\<close> itself, the raw record, not the reconciled view \<open>updatedData d\<close>. (It
  stores nothing, and the cache keeps its value, in the one case that the backfill update is
  issued and throws.)
\<close>

theorem fetchUserProfile_caches_raw_record:
  assumes sel: "svc_select S (backend w) userId =
                  (Inr \<lparr>sel_data = Some d, sel_error = None\<rparr>, b1)"
  shows "\<exists>w'. fetchUserProfile S chaptersData userId w = Some (Inr (), w') \<and>
           userProfile w' = (if backfill_throws S b1 userId d then userProfile w else Some d)"
  by (subst fetchUserProfile.simps)
     (auto simp: svc_defs sel catch_log_def backfill_throws_def setUserProfile_def
           console_error_def split: prod.splits sum.splits)

text \<open>An instance where the raw record and the reconciled view differ in all three fields.\<close>

theorem fetchUserProfile_caches_raw_record_witness:
  "(\<exists>w'. fetchUserProfile mem_services sample_catalog ''u1''
            (initial (mem_empty\<lparr>mem_table := [(''u1'', legacy_row)]\<rparr>)) = Some (Inr (), w') \<and>
          userProfile w' = Some legacy_row) \<and>
   updatedData legacy_row =
     legacy_row\<lparr>total_coins := Some 75, unlocked_chapters := Some [''class9_ch1''],
                 name := Some ''Ann''\<rparr> \<and>
   updatedData legacy_row \<noteq> legacy_row"
proof -
  let ?m = "mem_empty\<lparr>mem_table := [(''u1'', legacy_row)]\<rparr>"
  have h1: "svc_select mem_services (backend (initial ?m)) ''u1'' =
              (Inr \<lparr>sel_data = Some legacy_row, sel_error = None\<rparr>, ?m)"
    by (simp add: mem_defs)
  have nb: "\<not> backfill_throws mem_services ?m ''u1'' legacy_row"
    by (simp add: backfill_throws_def mem_defs)
  have ud: "updatedData legacy_row =
     legacy_row\<lparr>total_coins := Some 75, unlocked_chapters := Some [''class9_ch1''],
                 name := Some ''Ann''\<rparr>"
    by (simp add: updatedData_def legacy_row_def empty_profile_def nullish_def js_defs)
  have ne: "updatedData legacy_row \<noteq> legacy_row"
    by (simp add: updatedData_def legacy_row_def empty_profile_def nullish_def js_defs)
  from fetchUserProfile_caches_raw_record[OF h1, of sample_catalog] nb ud ne
  show ?thesis by simp
qed

text \<open>
  Claim C5. For a stored row whose \<open>total_coins\<close> is null and whose \<open>money\<close> is 75 the claim
  asks for a backfill update with \<open>total_coins: 75\<close> and for a cached profile with
  \<open>total_coins = 75\<close>. The update is issued, but the cached profile is the raw row: its
  \<open>total_coins\<close> is still null. Line 110 stores \<open>data\<close>, not the \<open>updatedData\<close> that lines 94
  to 100 build to fix the missing fields.
\<close>

theorem fetchUserProfile_backfill_not_cached:
  "total_coins legacy_row = None \<and> money legacy_row = Some 75 \<and>
   outcome (fetchUserProfile mem_services sample_catalog ''u1''
              (initial (mem_empty\<lparr>mem_table := [(''u1'', legacy_row)]\<rparr>))) =
     Some (Inr (), Some legacy_row,
           [DbSelect ''u1'', DbUpdate ''u1'' (empty_profile\<lparr>total_coins := Some 75\<rparr>)])"
  apply (subst fetchUserProfile.simps)
  apply (simp add: svc_defs mem_defs catch_log_def setUserProfile_def legacy_row_def
           backfill_payload_def updatedData_def empty_profile_def outcome_def)
  done

subsection \<open>Failures of \<open>fetchUserProfile\<close>\<close>

text \<open>
  Claim C9. \<open>fetchUserProfile\<close> never throws to its caller. Every call that completes has
  resolved; it has either logged nothing, or it has failed with an error \<open>e\<close>, logged exactly
  that error and left the cached profile in its prior state. And every failure makes the call
  complete in that way, whichever it is: a lookup that rejects or resolves with an error
  other than the not-found code, a lookup with neither error nor row, a backfill update that
  rejects, a \<open>getUser\<close> that rejects, an insert that rejects or resolves with an error, and any
  of these in the re-fetch, at any depth. The error logged is the error of the failing step.
\<close>

theorem fetchUserProfile_swallows_errors:
  "(fetchUserProfile S chaptersData userId w = Some y \<longrightarrow>
      fst y = Inr () \<and>
      ((console (snd y) = console w \<and>
        (userProfile (snd y) = userProfile w \<or> (\<exists>d. userProfile (snd y) = Some d))) \<or>
       (\<exists>e. fetch_fails S chaptersData (backend w) userId e \<and>
            console (snd y) = console w @ [LogError ''Error fetching user profile:'' e] \<and>
            userProfile (snd y) = userProfile w))) \<and>
   (fetch_fails S chaptersData (backend w) userId e \<longrightarrow>
      (\<exists>w'. fetchUserProfile S chaptersData userId w = Some (Inr (), w') \<and>
           console w' = console w @ [LogError ''Error fetching user profile:'' e] \<and>
           userProfile w' = userProfile w \<and> user w' = user w \<and> timers w' = timers w))"
  using fetchUserProfile_completed[of S chaptersData userId w y]
    fetchUserProfile_fails_logged[of S chaptersData "backend w" userId e w]
  unfolding fetch_logged_def by blast

text \<open>
  Four instances, each with a profile in the cache before the call: the lookup resolves with
  an error, the insert resolves with an error, the backfill update rejects, and the call for
  \<open>u2\<close> while the current user is \<open>u1\<close>: there the row is inserted under \<open>u1\<close>, the re-fetch
  misses again and the second insert fails on the duplicate key.
\<close>

theorem fetchUserProfile_swallows_errors_witness:
  "(fetch_fails mem_services sample_catalog (mem_empty\<lparr>mem_faults := [Some boom]\<rparr>) ''u1'' boom \<and>
    (\<exists>w'. fetchUserProfile mem_services sample_catalog ''u1''
               ((initial (mem_empty\<lparr>mem_faults := [Some boom]\<rparr>))
                  \<lparr>userProfile := Some legacy_row\<rparr>) = Some (Inr (), w') \<and>
            console w' = [LogError ''Error fetching user profile:'' boom] \<and>
            userProfile w' = Some legacy_row)) \<and>
   (fetch_fails mem_services sample_catalog
        (mem_empty\<lparr>mem_current := Some sample_user, mem_faults := [None, Some denied]\<rparr>)
        ''u1'' denied \<and>
    (\<exists>w'. fetchUserProfile mem_services sample_catalog ''u1''
               ((initial (mem_empty\<lparr>mem_current := Some sample_user,
                                     mem_faults := [None, Some denied]\<rparr>))
                  \<lparr>userProfile := Some legacy_row\<rparr>) = Some (Inr (), w') \<and>
            console w' = [LogError ''Error fetching user profile:'' denied] \<and>
            userProfile w' = Some legacy_row)) \<and>
   (fetch_fails mem_rejecting sample_catalog
        (mem_empty\<lparr>mem_table := [(''u1'', legacy_row)]\<rparr>) ''u1'' boom \<and>
    (\<exists>w'. fetchUserProfile mem_rejecting sample_catalog ''u1''
               ((initial (mem_empty\<lparr>mem_table := [(''u1'', legacy_row)]\<rparr>))
                  \<lparr>userProfile := Some signed_up_row\<rparr>) = Some (Inr (), w') \<and>
            console w' = [LogError ''Error fetching user profile:'' boom] \<and>
            userProfile w' = Some signed_up_row)) \<and>
   (fetch_fails mem_services sample_catalog
        (mem_empty\<lparr>mem_current := Some sample_user\<rparr>) ''u2'' duplicate_key \<and>
    (\<exists>w'. fetchUserProfile mem_services sample_catalog ''u2''
               ((initial (mem_empty\<lparr>mem_current := Some sample_user\<rparr>))
                  \<lparr>userProfile := Some legacy_row\<rparr>) = Some (Inr (), w') \<and>
            console w' = [LogError ''Error fetching user profile:'' duplicate_key] \<and>
            userProfile w' = Some legacy_row))"
proof -
  let ?mq = "mem_empty\<lparr>mem_faults := [Some boom]\<rparr>"
  let ?mi = "mem_empty\<lparr>mem_current := Some sample_user, mem_faults := [None, Some denied]\<rparr>"
  let ?mb = "mem_empty\<lparr>mem_table := [(''u1'', legacy_row)]\<rparr>"
  let ?mn = "mem_empty\<lparr>mem_current := Some sample_user\<rparr>"
  let ?mn3 = "?mn\<lparr>mem_table := [(''u1'', default_profile sample_catalog sample_user)]\<rparr>"
  let ?nf = "\<lparr>sel_data = None, sel_error = Some not_found\<rparr>"
  have q: "fetch_fails mem_services sample_catalog ?mq ''u1'' boom"
    by (rule fetch_fails.query_error
          [where res = "\<lparr>sel_data = None, sel_error = Some boom\<rparr>" and b_sel = "?mq\<lparr>mem_faults := []\<rparr>"])
       (simp_all add: mem_defs)
  have i: "fetch_fails mem_services sample_catalog ?mi ''u1'' denied"
    by (rule fetch_fails.insert_error
          [where res = ?nf and err = not_found and b_sel = "?mi\<lparr>mem_faults := [Some denied]\<rparr>"
             and b_usr = "?mi\<lparr>mem_faults := [Some denied]\<rparr>" and u = sample_user
             and b_ins = "?mi\<lparr>mem_faults := []\<rparr>"])
       (simp_all add: mem_defs)
  have b: "fetch_fails mem_rejecting sample_catalog ?mb ''u1'' boom"
    by (rule fetch_fails.backfill_rejects
          [where res = "\<lparr>sel_data = Some legacy_row, sel_error = None\<rparr>" and b_sel = ?mb
             and d = legacy_row and b_upd = ?mb])
       (simp_all add: mem_defs rej_defs legacy_row_def empty_profile_def)
  have n3: "fetch_fails mem_services sample_catalog ?mn3 ''u2'' duplicate_key"
    by (rule fetch_fails.insert_error
          [where res = ?nf and err = not_found and b_sel = ?mn3 and b_usr = ?mn3 and u = sample_user
             and b_ins = ?mn3])
       (simp_all add: mem_defs default_profile_def empty_profile_def)
  have n: "fetch_fails mem_services sample_catalog ?mn ''u2'' duplicate_key"
    by (rule fetch_fails.refetch_fails
          [where res = ?nf and err = not_found and b_sel = ?mn and b_usr = ?mn and u = sample_user
             and b_ins = ?mn3, OF _ _ _ _ _ n3])
       (simp_all add: mem_defs default_profile_def empty_profile_def)
  note logged = fetchUserProfile_swallows_errors[THEN conjunct2, rule_format]
  have rq: "\<exists>w'. fetchUserProfile mem_services sample_catalog ''u1''
               ((initial ?mq)\<lparr>userProfile := Some legacy_row\<rparr>) = Some (Inr (), w') \<and>
            console w' = [LogError ''Error fetching user profile:'' boom] \<and>
            userProfile w' = Some legacy_row"
    using q logged[where S = mem_services and chaptersData = sample_catalog and userId = "''u1''"
             and w = "(initial ?mq)\<lparr>userProfile := Some legacy_row\<rparr>" and e = boom]
    by (auto simp: initial_def)
  have ri: "\<exists>w'. fetchUserProfile mem_services sample_catalog ''u1''
               ((initial ?mi)\<lparr>userProfile := Some legacy_row\<rparr>) = Some (Inr (), w') \<and>
            console w' = [LogError ''Error fetching user profile:'' denied] \<and>
            userProfile w' = Some legacy_row"
    using i logged[where S = mem_services and chaptersData = sample_catalog and userId = "''u1''"
             and w = "(initial ?mi)\<lparr>userProfile := Some legacy_row\<rparr>" and e = denied]
    by (auto simp: initial_def)
  have rb: "\<exists>w'. fetchUserProfile mem_rejecting sample_catalog ''u1''
               ((initial ?mb)\<lparr>userProfile := Some signed_up_row\<rparr>) = Some (Inr (), w') \<and>
            console w' = [LogError ''Error fetching user profile:'' boom] \<and>
            userProfile w' = Some signed_up_row"
    using b logged[where S = mem_rejecting and chaptersData = sample_catalog and userId = "''u1''"
             and w = "(initial ?mb)\<lparr>userProfile := Some signed_up_row\<rparr>" and e = boom]
    by (auto simp: initial_def)
  have rn: "\<exists>w'. fetchUserProfile mem_services sample_catalog ''u2''
               ((initial ?mn)\<lparr>userProfile := Some legacy_row\<rparr>) = Some (Inr (), w') \<and>
            console w' = [LogError ''Error fetching user profile:'' duplicate_key] \<and>
            userProfile w' = Some legacy_row"
    using n logged[where S = mem_services and chaptersData = sample_catalog and userId = "''u2''"
             and w = "(initial ?mn)\<lparr>userProfile := Some legacy_row\<rparr>" and e = duplicate_key]
    by (auto simp: initial_def)
  from q i b n rq ri rb rn show ?thesis
    by (intro conjI)
qed

subsection \<open>\<open>signUp\<close>\<close>

text \<open>
  Claim C7. For a \<open>signUp\<close> with \<open>class_level = 9\<close>, accepted by the Auth Service with a new
  identity, when the catalog contains a chapter \<open>{id: "class9_ch1", class_level: 9, order: 1}\<close>
  as its first chapter of class level 9, the row that \<open>signUp\<close> inserts has
  \<open>unlocked_chapters = ["class9_ch1"]\<close>, \<open>total_coins = 0\<close> and \<open>money = 100\<close>. The insert is the
  second request, after the sign-up itself; what follows depends on its answer \<open>r\<close>.
\<close>

theorem signUp_class9_inserted_row:
  assumes su: "svc_signUp S (backend w) em pw (name userData) (class_level userData) =
                 (Inr \<lparr>su_user = Some u, su_error = None\<rparr>, b1)"
    and cl: "class_level userData = Some 9"
    and ch: "first_chapter_is chaptersData 9 ''class9_ch1''"
    and ins: "svc_insert S b1 (signUp_profile chaptersData em userData u) = (r, b2)"
    and w2: "w2 = w\<lparr>requests := requests w @ [AuthSignUp em pw (name userData) (Some 9),
                        DbInsert (signUp_profile chaptersData em userData u)], backend := b2\<rparr>"
  shows "signUp S chaptersData em pw userData w =
           (case r of
              Inl thrown \<Rightarrow> Some (Inl thrown, w2)
            | Inr (Some userError) \<Rightarrow> Some (Inl userError, w2)
            | Inr None \<Rightarrow> fetchUserProfile S chaptersData (user_id u) w2) \<and>
         unlocked_chapters (signUp_profile chaptersData em userData u) = Some [''class9_ch1''] \<and>
         total_coins (signUp_profile chaptersData em userData u) = Some 0 \<and>
         money (signUp_profile chaptersData em userData u) = Some 100"
proof -
  from firstChapter_for_id[OF ch] obtain c where
    f: "firstChapter_for chaptersData (class_level userData) = Some c"
       "chapter_id c = ''class9_ch1''"
    unfolding cl by blast
  have fields:
     "unlocked_chapters (signUp_profile chaptersData em userData u) = Some [''class9_ch1'']"
     "total_coins (signUp_profile chaptersData em userData u) = Some 0"
     "money (signUp_profile chaptersData em userData u) = Some 100"
    by (simp_all add: signUp_profile_def empty_profile_def f)
  have "signUp S chaptersData em pw userData w =
           (case r of
              Inl thrown \<Rightarrow> Some (Inl thrown, w2)
            | Inr (Some userError) \<Rightarrow> Some (Inl userError, w2)
            | Inr None \<Rightarrow> fetchUserProfile S chaptersData (user_id u) w2)"
    using su ins
    by (simp add: signUp_def svc_defs cl w2 split: sum.splits option.splits)
  with fields show ?thesis by simp
qed

text \<open>An instance, run to its end: the sign-up, the insert of the row, the lookup that
  caches it.\<close>

theorem signUp_class9_inserted_row_witness:
  "catalog_keyed sample_catalog \<and> first_chapter_is sample_catalog 9 ''class9_ch1'' \<and>
   outcome (signUp mem_services sample_catalog ''ann@example.org'' ''pw''
              (empty_profile\<lparr>name := Some ''Ann'', class_level := Some 9\<rparr>) (initial mem_empty)) =
     Some (Inr (),
           Some (signed_up_row\<lparr>profile_id := Some ''id-ann@example.org''\<rparr>),
           [AuthSignUp ''ann@example.org'' ''pw'' (Some ''Ann'') (Some 9),
            DbInsert (signed_up_row\<lparr>profile_id := Some ''id-ann@example.org''\<rparr>),
            DbSelect ''id-ann@example.org'']) \<and>
   unlocked_chapters signed_up_row = Some [''class9_ch1''] \<and>
   total_coins signed_up_row = Some 0 \<and>
   money signed_up_row = Some 100"
proof -
  let ?ud = "empty_profile\<lparr>name := Some ''Ann'', class_level := Some 9\<rparr>"
  let ?u = "\<lparr>user_id = ''id-ann@example.org'', user_email = Some ''ann@example.org'',
             user_metadata_name = Some ''Ann''\<rparr>"
  let ?m1 = "mem_empty\<lparr>mem_current := Some ?u\<rparr>"
  let ?row = "signUp_profile sample_catalog ''ann@example.org'' ?ud ?u"
  let ?m2 = "?m1\<lparr>mem_table := [(''id-ann@example.org'', ?row)]\<rparr>"
  let ?w2 = "(initial mem_empty)\<lparr>requests := requests (initial mem_empty)
                 @ [AuthSignUp ''ann@example.org'' ''pw'' (name ?ud) (Some 9), DbInsert ?row],
               backend := ?m2\<rparr>"
  have h1: "svc_signUp mem_services (backend (initial mem_empty)) ''ann@example.org'' ''pw''
              (name ?ud) (class_level ?ud) = (Inr \<lparr>su_user = Some ?u, su_error = None\<rparr>, ?m1)"
    by (simp add: mem_defs empty_profile_def)
  have h2: "class_level ?ud = Some 9"
    by simp
  have h4: "catalog_keyed sample_catalog"
    by (simp add: catalog_keyed_def sample_catalog_def class9_ch1_def)
  have mem: "class9_ch1 \<in> set sample_catalog"
    by (simp add: sample_catalog_def)
  have "first_chapter_is sample_catalog 9 (chapter_id class9_ch1)"
    by (rule catalog_keyed_first_chapter_is[OF h4 mem]) (simp_all add: class9_ch1_def)
  then have h3: "first_chapter_is sample_catalog 9 ''class9_ch1''"
    by (simp add: class9_ch1_def)
  have rowid: "?row = signed_up_row\<lparr>profile_id := Some ''id-ann@example.org''\<rparr>"
    by (simp add: signed_up_row_def signUp_profile_def empty_profile_def)
  have h5: "svc_insert mem_services ?m1 ?row = (Inr None, ?m2)"
    by (simp add: mem_defs signUp_profile_def empty_profile_def js_defs)
  have run: "fetchUserProfile mem_services sample_catalog ''id-ann@example.org'' ?w2 =
               Some (Inr (), setUserProfile (Some ?row)
                 (?w2\<lparr>requests := requests ?w2 @ [DbSelect ''id-ann@example.org'']\<rparr>))"
    apply (subst fetchUserProfile.simps)
    apply (simp add: svc_defs mem_defs catch_log_def setUserProfile_def signUp_profile_def
             empty_profile_def js_defs)
    done
  from signUp_class9_inserted_row[OF h1 h2 h3 h5 refl]
  have "signUp mem_services sample_catalog ''ann@example.org'' ''pw'' ?ud (initial mem_empty) =
          fetchUserProfile mem_services sample_catalog ''id-ann@example.org'' ?w2"
    and fields: "unlocked_chapters ?row = Some [''class9_ch1'']" "total_coins ?row = Some 0"
      "money ?row = Some 100"
    by simp_all
  with run have "outcome (signUp mem_services sample_catalog ''ann@example.org'' ''pw'' ?ud
                    (initial mem_empty)) =
       Some (Inr (), Some ?row,
           [AuthSignUp ''ann@example.org'' ''pw'' (Some ''Ann'') (Some 9), DbInsert ?row,
            DbSelect ''id-ann@example.org''])"
    by (simp add: outcome_def setUserProfile_def initial_def)
  with h3 h4 fields show ?thesis
    unfolding rowid by simp
qed

text \<open>
  Claim C3. Every profile row that this component creates should have a non-empty
  \<open>unlocked_chapters\<close>. The row of the create-on-missing branch has
  (\<open>default_profile_unlocked_nonempty\<close>). The row of \<open>signUp\<close> has not: called without a class
  level, against a catalog that has a first chapter for class level 1, \<open>signUp\<close> inserts a row
  with \<open>class_level = 1\<close> and an empty \<open>unlocked_chapters\<close>. Line 134 looks the chapter up under
  the missing class level while line 143 defaults the class level to 1, and line 148 falls
  back to \<open>[]\<close> where line 84 falls back to \<open>class9_ch1\<close>.
\<close>

theorem signUp_without_class_level_unlocks_nothing:
  "firstChapter_default sample_catalog =
      Some \<lparr>chapter_id = ''class1_ch1'', chapter_class_level = 1, chapter_order = 1\<rparr> \<and>
   outcome (signUp mem_services sample_catalog ''ann@example.org'' ''pw''
              (empty_profile\<lparr>name := Some ''Ann''\<rparr>) (initial mem_empty)) =
     Some (Inr (),
           Some (empty_profile\<lparr>profile_id := Some ''id-ann@example.org'',
              email := Some ''ann@example.org'', name := Some ''Ann'', class_level := Some 1,
              total_coins := Some 0, total_correct := Some 0, total_wrong := Some 0,
              avatar_id := Some 1, unlocked_chapters := Some [],
              diagnostic_completed := Some False, full_name := Some ''Ann'',
              money := Some 100\<rparr>),
           [AuthSignUp ''ann@example.org'' ''pw'' (Some ''Ann'') None,
            DbInsert (empty_profile\<lparr>profile_id := Some ''id-ann@example.org'',
              email := Some ''ann@example.org'', name := Some ''Ann'', class_level := Some 1,
              total_coins := Some 0, total_correct := Some 0, total_wrong := Some 0,
              avatar_id := Some 1, unlocked_chapters := Some [],
              diagnostic_completed := Some False, full_name := Some ''Ann'',
              money := Some 100\<rparr>),
            DbSelect ''id-ann@example.org''])"
  apply (simp add: signUp_def firstChapter_default_def sample_catalog_def svc_defs mem_defs
           signUp_profile_def firstChapter_for_def js_defs empty_profile_def)
  apply (subst fetchUserProfile.simps)
  apply (simp add: svc_defs mem_defs catch_log_def setUserProfile_def outcome_def)
  done

subsection \<open>\<open>signOut\<close>\<close>

text \<open>
  Claim C4. Whatever the Auth Service does (no session, a session that it invalidates, a
  session whose invalidation fails, or a call that rejects), \<open>signOut\<close> resolves, and
  afterwards the local identity and the local profile are both null.
\<close>

theorem signOut_always_clears:
  "fst (signOut S w) = Inr () \<and>
   user (snd (signOut S w)) = None \<and>
   userProfile (snd (signOut S w)) = None"
  by (simp add: signOut_def setUser_def setUserProfile_def console_error_def
        split: prod.splits sum.splits option.splits)

text \<open>An instance where the remote invalidation fails: the failure is logged, the state is
  cleared and the session is still active at the Auth Service.\<close>

theorem signOut_always_clears_witness:
  "signOut mem_services
     ((initial (mem_empty\<lparr>mem_current := Some sample_user, mem_faults := [Some boom]\<rparr>))
        \<lparr>user := Some sample_user, userProfile := Some legacy_row\<rparr>) =
     (Inr (), \<lparr>user = None, userProfile = None, timers = [],
               console = [LogError ''Sign out error:'' boom],
               requests = [AuthGetSession, AuthSignOut],
               backend = mem_empty\<lparr>mem_current := Some sample_user\<rparr>\<rparr>)"
proof -
  let ?w = "(initial (mem_empty\<lparr>mem_current := Some sample_user, mem_faults := [Some boom]\<rparr>))
              \<lparr>user := Some sample_user, userProfile := Some legacy_row\<rparr>"
  have rest: "timers (snd (signOut mem_services ?w)) = [] \<and>
              console (snd (signOut mem_services ?w)) = [LogError ''Sign out error:'' boom] \<and>
              requests (snd (signOut mem_services ?w)) = [AuthGetSession, AuthSignOut] \<and>
              backend (snd (signOut mem_services ?w)) = mem_empty\<lparr>mem_current := Some sample_user\<rparr>"
    by (simp add: signOut_def svc_defs mem_defs setUser_def setUserProfile_def console_error_def)
  obtain r w' where eq: "signOut mem_services ?w = (r, w')"
    by (cases "signOut mem_services ?w")
  from signOut_always_clears[of mem_services ?w] rest show ?thesis
    unfolding eq by (cases w') simp
qed

subsection \<open>\<open>updateUserStats\<close>\<close>

text \<open>
  Claim C8. With an identity set, if the write to the Profile Store fails with \<open>e\<close> (the update
  rejects with \<open>e\<close> or resolves with the error \<open>e\<close>), \<open>updateUserStats\<close> rejects with that same
  \<open>e\<close>, the cached profile is unchanged and no timer is set. If the write succeeds, the call
  resolves, the cache gets the optimistic update and one re-fetch is scheduled after 500 ms.
  So the optimistic update and the re-fetch occur only if the write succeeded.
\<close>

theorem updateUserStats_write_failure:
  assumes u: "user w = Some u"
  shows "(fst (svc_update S (backend w) (user_id u)
                 (stats_payload (userProfile w) correct wrong mny)) = Inl e \<or>
          fst (svc_update S (backend w) (user_id u)
                 (stats_payload (userProfile w) correct wrong mny)) = Inr (Some e) \<longrightarrow>
            fst (updateUserStats S correct wrong mny w) = Inl e \<and>
            userProfile (snd (updateUserStats S correct wrong mny w)) = userProfile w \<and>
            timers (snd (updateUserStats S correct wrong mny w)) = timers w) \<and>
         (fst (svc_update S (backend w) (user_id u)
                 (stats_payload (userProfile w) correct wrong mny)) = Inr None \<longrightarrow>
            fst (updateUserStats S correct wrong mny w) = Inr () \<and>
            userProfile (snd (updateUserStats S correct wrong mny w)) =
               optimistic (userProfile w) correct wrong mny (userProfile w) \<and>
            timers (snd (updateUserStats S correct wrong mny w)) =
               timers w @ [\<lparr>timer_delay = 500, timer_userId = user_id u\<rparr>])"
  by (auto simp: updateUserStats_def u Let_def svc_defs console_log_def console_error_def
        setTimeout_def setUserProfile_def split: prod.splits sum.splits option.splits)

text \<open>Three instances on the same profile: a write that resolves with an error, a write that
  rejects, and one that succeeds.\<close>

theorem updateUserStats_write_failure_witness:
  "(fst (updateUserStats mem_services 2 1 10
           ((initial (mem_empty\<lparr>mem_faults := [Some denied]\<rparr>))
              \<lparr>user := Some sample_user, userProfile := Some legacy_row\<rparr>)) = Inl denied \<and>
    userProfile (snd (updateUserStats mem_services 2 1 10
           ((initial (mem_empty\<lparr>mem_faults := [Some denied]\<rparr>))
              \<lparr>user := Some sample_user, userProfile := Some legacy_row\<rparr>))) = Some legacy_row \<and>
    timers (snd (updateUserStats mem_services 2 1 10
           ((initial (mem_empty\<lparr>mem_faults := [Some denied]\<rparr>))
              \<lparr>user := Some sample_user, userProfile := Some legacy_row\<rparr>))) = []) \<and>
   (fst (updateUserStats mem_rejecting 2 1 10
           ((initial mem_empty)\<lparr>user := Some sample_user, userProfile := Some legacy_row\<rparr>))
      = Inl boom \<and>
    userProfile (snd (updateUserStats mem_rejecting 2 1 10
           ((initial mem_empty)\<lparr>user := Some sample_user, userProfile := Some legacy_row\<rparr>))) =
      Some legacy_row \<and>
    timers (snd (updateUserStats mem_rejecting 2 1 10
           ((initial mem_empty)\<lparr>user := Some sample_user, userProfile := Some legacy_row\<rparr>))) = []) \<and>
   (fst (updateUserStats mem_services 2 1 10
           ((initial mem_empty)\<lparr>user := Some sample_user, userProfile := Some legacy_row\<rparr>))
      = Inr () \<and>
    userProfile (snd (updateUserStats mem_services 2 1 10
           ((initial mem_empty)\<lparr>user := Some sample_user, userProfile := Some legacy_row\<rparr>))) =
      Some (legacy_row\<lparr>total_correct := Some 2, total_wrong := Some 1, total_coins := Some 85,
              money := Some 85, total_correct_answers := Some 2\<rparr>) \<and>
    timers (snd (updateUserStats mem_services 2 1 10
           ((initial mem_empty)\<lparr>user := Some sample_user, userProfile := Some legacy_row\<rparr>))) =
      [\<lparr>timer_delay = 500, timer_userId = ''u1''\<rparr>])"
proof -
  let ?wf = "(initial (mem_empty\<lparr>mem_faults := [Some denied]\<rparr>))
               \<lparr>user := Some sample_user, userProfile := Some legacy_row\<rparr>"
  let ?ws = "(initial mem_empty)\<lparr>user := Some sample_user, userProfile := Some legacy_row\<rparr>"
  have uf: "user ?wf = Some sample_user" and us: "user ?ws = Some sample_user"
    by simp_all
  have failed: "fst (svc_update mem_services (backend ?wf) (user_id sample_user)
                  (stats_payload (userProfile ?wf) 2 1 10)) = Inr (Some denied)"
    by (simp add: mem_defs)
  have rejected: "fst (svc_update mem_rejecting (backend ?ws) (user_id sample_user)
                  (stats_payload (userProfile ?ws) 2 1 10)) = Inl boom"
    by (simp add: mem_defs rej_defs)
  have ok: "fst (svc_update mem_services (backend ?ws) (user_id sample_user)
                  (stats_payload (userProfile ?ws) 2 1 10)) = Inr None"
    by (simp add: mem_defs)
  have opt: "optimistic (Some legacy_row) 2 1 10 (Some legacy_row) =
      Some (legacy_row\<lparr>total_correct := Some 2, total_wrong := Some 1, total_coins := Some 85,
              money := Some 85, total_correct_answers := Some 2\<rparr>)"
    by (simp add: optimistic_def newTotalCorrect_def newTotalWrong_def newTotalCoins_def
          currentCoins_def js_defs legacy_row_def empty_profile_def)
  from updateUserStats_write_failure[OF uf, of mem_services 2 1 10 denied]
       updateUserStats_write_failure[OF us, of mem_rejecting 2 1 10 boom]
       updateUserStats_write_failure[OF us, of mem_services 2 1 10]
       failed rejected ok opt
  show ?thesis
    by (simp add: initial_def sample_user_def)
qed

text \<open>
  Claim C2. The values written should be \<open>old total_correct + correctDelta\<close>,
  \<open>old total_wrong + wrongDelta\<close> and \<open>floor (old total_coins + moneyDelta)\<close>, with
  \<open>total_coins = money\<close> after the write. The counters and the equality of the two currency
  fields hold (\<open>stats_payload_counters\<close>, \<open>stats_payload_coins_eq_money\<close>), and so does the
  balance when \<open>total_coins\<close> is present and not zero (\<open>newTotalCoins_nonzero\<close>). It fails for
  a cached \<open>total_coins\<close> of \<open>0\<close> beside a non-zero \<open>money\<close>, which is the row that \<open>signUp\<close>
  inserts: line 193 reads \<open>total_coins || money\<close>, so a balance of zero counts as absent, and
  \<open>updateUserStats(1, 0, 5)\<close> writes \<open>105\<close> where the claim says \<open>floor (0 + 5) = 5\<close>. The lookup
  at line 97 uses \<open>??\<close> for the same fallback.
\<close>

theorem updateUserStats_zero_coins_takes_money:
  "total_coins signed_up_row = Some 0 \<and> money signed_up_row = Some 100 \<and>
   requests (snd (updateUserStats mem_services 1 0 5
       ((initial mem_empty)\<lparr>user := Some sample_user, userProfile := Some signed_up_row\<rparr>))) =
     [DbUpdate ''u1'' (empty_profile\<lparr>total_correct := Some 1, total_wrong := Some 0,
        total_coins := Some 105, money := Some 105, total_correct_answers := Some 1\<rparr>)]"
  by (simp add: updateUserStats_def signed_up_row_def signUp_profile_def
        stats_payload_def newTotalCorrect_def newTotalWrong_def newTotalCoins_def currentCoins_def
        js_defs mem_defs svc_defs console_log_def empty_profile_def
        setTimeout_def setUserProfile_def)

end
